theory Spec2Isabelle
  imports Main "HOL-Library.Sublist" "HOL-Library.AList"
begin

section \<open>The retrying fetch client (src/utils/fetcher.js)\<close>

text \<open>
  JavaScript numbers that the code computes with (status codes, retry delays) are
  integers here; \<open>NaN\<close> is the one non-integer value the code can produce
  (\<open>parseInt\<close> of a header without digits), so a number is \<open>NaN\<close> or an integer.
  The model is exact for magnitudes below \<open>2 ^ 53\<close>.
\<close>

datatype num = NaN | Num int

text \<open>\<open>error.cause\<close> of the error raised for a 429 response.\<close>

record cause =
  status :: nat
  retryAfter :: num

text \<open>A JavaScript \<open>Error\<close>: its message and its optional \<open>cause\<close>.\<close>

record js_error =
  message :: string
  cause :: "cause option"

text \<open>
  What the code reads of a node-fetch response: the status, the \<open>Retry-After\<close>
  header (\<open>headers.get\<close> gives \<open>null\<close> when absent) and the outcome of
  \<open>response.json()\<close>, which rejects with a message when the body is not JSON.
\<close>

record 'j response =
  res_status :: nat
  retryAfterHeader :: "string option"
  json :: "string + 'j"

text \<open>One call of \<open>fetch(url, ...)\<close>: it resolves with a response or rejects.\<close>

datatype 'j attempt = Resolves "'j response" | Rejects string

text \<open>What \<open>fetchWithRetry\<close> resolves to: parsed JSON, the response, or nothing
  (the loop ran out and the function body ended without a \<open>return\<close>).\<close>

datatype 'j fetched = Json 'j | Resp "'j response" | Undefined

text \<open>
  A header value is a string of code units below 256 (Node decodes header bytes as
  Latin-1), so a \<open>char\<close> is one code unit of it. The white space that \<open>parseInt\<close>
  skips is, among these, TAB, LF, VT, FF, CR, the space and the no-break space.
\<close>

definition isWhiteSpace :: "char \<Rightarrow> bool" where
  "isWhiteSpace c \<longleftrightarrow>
     c \<in> {CHR '' '', CHR 0x09, CHR 0x0A, CHR 0x0B, CHR 0x0C, CHR 0x0D, CHR 0xA0}"

definition isDigit :: "char \<Rightarrow> bool" where
  "isDigit c \<longleftrightarrow> (48::nat) \<le> of_char c \<and> of_char c \<le> (57::nat)"

definition digitVal :: "char \<Rightarrow> int" where
  "digitVal c = int (of_char c) - 48"

text \<open>\<open>parseInt(s, 10)\<close>: leading white space, an optional sign, then the longest
  run of decimal digits; \<open>NaN\<close> when there is no digit.\<close>

definition parseInt :: "string \<Rightarrow> num" where
  "parseInt s =
     (let t = dropWhile isWhiteSpace s;
          sgn = (case t of c # _ \<Rightarrow> if c = CHR ''-'' then (-1::int) else 1 | [] \<Rightarrow> 1);
          u = (case t of c # r \<Rightarrow> if c = CHR ''-'' \<or> c = CHR ''+'' then r else t | [] \<Rightarrow> t);
          ds = takeWhile isDigit u
      in if ds = [] then NaN else Num (sgn * foldl (\<lambda>a d. 10 * a + digitVal d) 0 ds))"

definition times1000 :: "num \<Rightarrow> num" where
  "times1000 x = (case x of NaN \<Rightarrow> NaN | Num n \<Rightarrow> Num (n * 1000))"

fun showNat :: "nat \<Rightarrow> string" where
  "showNat n =
     (if n < 10 then [char_of (48 + n)] else showNat (n div 10) @ [char_of (48 + n mod 10)])"

declare showNat.simps [simp del]

text \<open>\<open>response.ok\<close>.\<close>

definition ok :: "'j response \<Rightarrow> bool" where
  "ok res \<longleftrightarrow> 200 \<le> res_status res \<and> res_status res \<le> 299"

text \<open>The closure \<open>fetchOperation\<close>: a 429 response becomes an error whose cause
  carries the status and the parsed \<open>Retry-After\<close> header in milliseconds.\<close>

definition fetchOperation :: "'j attempt \<Rightarrow> js_error + 'j response" where
  "fetchOperation a =
     (case a of
        Rejects m \<Rightarrow> Inl \<lparr>message = m, cause = None\<rparr>
      | Resolves res \<Rightarrow>
          if res_status res = 429 then
            (let h = retryAfterHeader res;
                 present = (case h of None \<Rightarrow> False | Some s \<Rightarrow> s \<noteq> [])
             in Inl \<lparr>message = ''429 Too Many Requests'' @
                         (if present then '' (Retry-After: '' @ the h @ ''s)'' else []),
                     cause = Some \<lparr>status = 429,
                                   retryAfter = (if present then times1000 (parseInt (the h))
                                                 else Num 0)\<rparr>\<rparr>)
          else Inr res)"

text \<open>\<open>npmjsLimiter\<close> (p-limit) bounds how many operations run at once; it returns
  what the operation returns.\<close>

definition npmjsLimiter :: "'a \<Rightarrow> 'a" where
  "npmjsLimiter operation = operation"

text \<open>The body of the \<open>try\<close> block of one iteration.\<close>

definition tryAttempt :: "'j attempt \<Rightarrow> string \<Rightarrow> bool \<Rightarrow> bool \<Rightarrow> js_error + 'j fetched" where
  "tryAttempt a url returnJson isNpmjsOfficialSource =
     (case (if isNpmjsOfficialSource then npmjsLimiter (fetchOperation a) else fetchOperation a) of
        Inl e \<Rightarrow> Inl e
      | Inr response \<Rightarrow>
          if \<not> ok response \<and> res_status response \<noteq> 404 then
            Inl \<lparr>message = ''HTTP error! status: '' @ showNat (res_status response) @
                             '' for '' @ url,
                 cause = None\<rparr>
          else if returnJson then
            (case json response of
               Inl m \<Rightarrow> Inl \<lparr>message = m, cause = None\<rparr>
             | Inr j \<Rightarrow> Inr (Json j))
          else Inr (Resp response))"

text \<open>
  The \<open>catch\<close> block of one iteration: it throws the error on, or waits
  (\<open>setTimeout\<close> with the given delay in milliseconds) and lets the loop go on.
\<close>

datatype handled = Throw | Wait int

definition catchBlock :: "js_error \<Rightarrow> nat \<Rightarrow> nat \<Rightarrow> handled" where
  "catchBlock error i retries =
     (let isLastAttempt = (int i = int retries - 1);
          status = map_option cause.status (cause error);
          retryAfter = map_option cause.retryAfter (cause error)
      in if status = Some 429 then
           (let waitTime = (case retryAfter of
                              Some (Num n) \<Rightarrow> if n \<noteq> 0 then n else 2 ^ i * 1000
                            | _ \<Rightarrow> 2 ^ i * 1000)
            in Wait waitTime)
         else if sublist ''ECONNRESET'' (message error) then
           (let waitTime = 2 ^ i * 1000 in Wait waitTime)
         else if isLastAttempt then Throw
         else Wait 1000)"

text \<open>
  The \<open>for\<close> loop of \<open>fetchWithRetry\<close> from iteration \<open>i\<close>. \<open>attempts i\<close> is what
  the \<open>i\<close>-th call of \<open>fetch\<close> does; \<open>waits\<close> collects the delays handed to
  \<open>setTimeout\<close>. The result is the error thrown to the caller (\<open>Inl\<close>) or the
  value returned; when the loop ends the function returns nothing.
\<close>

function fetchLoop ::
  "(nat \<Rightarrow> 'j attempt) \<Rightarrow> string \<Rightarrow> nat \<Rightarrow> bool \<Rightarrow> bool \<Rightarrow> nat \<Rightarrow> int list
     \<Rightarrow> (js_error + 'j fetched) \<times> int list" where
  "fetchLoop attempts url retries returnJson isNpmjsOfficialSource i waits =
     (if i < retries then
        (case tryAttempt (attempts i) url returnJson isNpmjsOfficialSource of
           Inr v \<Rightarrow> (Inr v, waits)
         | Inl error \<Rightarrow>
             (case catchBlock error i retries of
                Throw \<Rightarrow> (Inl error, waits)
              | Wait waitTime \<Rightarrow>
                  fetchLoop attempts url retries returnJson isNpmjsOfficialSource (Suc i)
                    (waits @ [waitTime])))
      else (Inr Undefined, waits))"
  by pat_completeness auto
termination
  by (relation "measure (\<lambda>(attempts, url, retries, returnJson, isNpmjs, i, waits). retries - i)")
     auto

declare fetchLoop.simps [simp del]

definition fetchWithRetry ::
  "(nat \<Rightarrow> 'j attempt) \<Rightarrow> string \<Rightarrow> nat \<Rightarrow> bool \<Rightarrow> bool \<Rightarrow> (js_error + 'j fetched) \<times> int list" where
  "fetchWithRetry attempts url retries returnJson isNpmjsOfficialSource =
     fetchLoop attempts url retries returnJson isNpmjsOfficialSource 0 []"

section \<open>The metadata-graph scanner (src/utils/dependency-analyzer.ts)\<close>

definition UNSAFE_DEPENDENCIES :: "string set" where
  "UNSAFE_DEPENDENCIES = {''sharp'', ''puppeteer'', ''canvas''}"

record analysis_result =
  isInsecure :: bool
  insecurePackages :: "string list"
  analyzedAt :: nat
  error :: "string option"

text \<open>
  A manifest of the registry document. A JavaScript object is an association list in
  the order in which its keys are enumerated (keys that are array indices, which
  JavaScript enumerates first, are not told apart); a section that the manifest does
  not have is the empty list, since spreading \<open>undefined\<close> adds no key.
\<close>

record version_info =
  dependencies :: "(string \<times> string) list"
  peerDependencies :: "(string \<times> string) list"
  optionalDependencies :: "(string \<times> string) list"

text \<open>The registry document of a package; \<open>None\<close> is a member that is missing.\<close>

record pkg_data =
  dist_tags :: "(string \<rightharpoonup> string) option"
  versions :: "(string \<rightharpoonup> version_info) option"

text \<open>
  What a scan reads from outside: the outcome of \<open>loadInsecurePackages()\<close> (it throws
  or gives the set of names), two values of \<open>config\<close>, the clock, and for each URL
  what the successive calls of \<open>fetch\<close> do (every call of \<open>fetchWithRetry\<close> for a URL
  meets the same sequence during a scan). The payload of a JSON response is a
  registry document, or \<open>None\<close> for a JSON value that is falsy.
\<close>

record environment =
  loadInsecurePackages :: "string + string set"
  now :: nat

record world = environment +
  NPM_REGISTRY :: string
  MAX_RETRIES :: nat
  network :: "string \<Rightarrow> nat \<Rightarrow> pkg_data option attempt"

text \<open>
  The module's cache, and a record of the calls of \<open>fetchWithRetry\<close> made so far:
  the key \<open>name@range\<close> the call was made for and its level, 0 for the scanned
  package, \<open>currentDepth + 1\<close> for a dependency.
\<close>

record cache_state =
  analysisCache :: "string \<rightharpoonup> analysis_result"

record scanner_state = cache_state +
  fetchLog :: "(string \<times> nat) list"

text \<open>The state that \<open>traverseDependencies\<close> shares between its calls.\<close>

record traversal =
  result :: analysis_result
  visited :: "string set"
  requests :: "(string \<times> nat) list"

text \<open>The template strings \<open>`${name}@${version}`\<close> and
  \<open>`${config.NPM_REGISTRY}/${name}`\<close>.\<close>

definition keyOf :: "string \<Rightarrow> string \<Rightarrow> string" where
  "keyOf name version = name @ ''@'' @ version"

definition urlOf :: "world \<Rightarrow> string \<Rightarrow> string" where
  "urlOf w name = NPM_REGISTRY w @ ''/'' @ name"

text \<open>\<open>{...target, ...source}\<close>: a key keeps its place, the last value wins.\<close>

definition spread :: "(string \<times> string) list \<Rightarrow> (string \<times> string) list \<Rightarrow> (string \<times> string) list" where
  "spread target source = fold (\<lambda>(k, v). AList.update k v) source target"

text \<open>\<open>(await fetchWithRetry(url)) as any\<close>: the error message when it throws, the
  JSON payload otherwise (\<open>None\<close> when it is falsy or when nothing is returned).\<close>

definition awaitFetch :: "world \<Rightarrow> string \<Rightarrow> string + pkg_data option" where
  "awaitFetch w url =
     (case fst (fetchWithRetry (network w url) url (MAX_RETRIES w) True False) of
        Inl e \<Rightarrow> Inl (message e)
      | Inr (Json j) \<Rightarrow> Inr j
      | Inr _ \<Rightarrow> Inr None)"

text \<open>\<open>result.isInsecure = true\<close> and the guarded \<open>push\<close>.\<close>

definition flag :: "string \<Rightarrow> analysis_result \<Rightarrow> analysis_result" where
  "flag depName r =
     r\<lparr>isInsecure := True,
       insecurePackages :=
         (if depName \<in> set (insecurePackages r) then insecurePackages r
          else insecurePackages r @ [depName])\<rparr>"

text \<open>The two checks made of a dependency name, against the built-in set and against
  the loaded list.\<close>

definition checkName :: "string set \<Rightarrow> string \<Rightarrow> analysis_result \<Rightarrow> analysis_result" where
  "checkName insecure depName r =
     (let r1 = (if depName \<in> UNSAFE_DEPENDENCIES then flag depName r else r)
      in if depName \<in> insecure then flag depName r1 else r1)"

definition batchSize :: nat where
  "batchSize = 10"

text \<open>The slices \<open>depEntries.slice(i, i + batchSize)\<close> for \<open>i = 0, batchSize, ...\<close>.\<close>

function batches :: "nat \<Rightarrow> 'a list \<Rightarrow> 'a list list" where
  "batches n xs = (if n = 0 \<or> xs = [] then [] else take n xs # batches n (drop n xs))"
  by pat_completeness auto
termination
  by (relation "measure (\<lambda>(n, xs). length xs)") auto

declare batches.simps [simp del]

text \<open>
  A callback of \<open>batch.map\<close> up to its first \<open>await\<close>: the name is checked, and
  unless its key was visited the key is added and \<open>fetchWithRetry\<close> is called. The
  callbacks whose fetch is under way are collected in \<open>pending\<close>.
\<close>

definition startCallback ::
  "string set \<Rightarrow> nat \<Rightarrow> string \<times> string \<Rightarrow> (string \<times> string) list \<times> traversal
     \<Rightarrow> (string \<times> string) list \<times> traversal" where
  "startCallback insecure currentDepth entry acc =
     (case (entry, acc) of ((depName, versionRange), (pending, t)) \<Rightarrow>
        (let t1 = t\<lparr>result := checkName insecure depName (result t)\<rparr>;
             depKey = keyOf depName versionRange
         in if depKey \<in> visited t1 then (pending, t1)
            else (pending @ [(depName, versionRange)],
                  t1\<lparr>visited := insert depKey (visited t1),
                     requests := requests t1 @ [(depKey, currentDepth + 1)]\<rparr>)))"

text \<open>
  \<open>versions[name]\<close>. The read goes through the prototype chain: for a name that the
  object does not have but \<open>Object.prototype\<close> has, it gives the inherited member,
  which is truthy and has none of the three sections, as a manifest without
  dependencies has.
\<close>

definition objectPrototypeMembers :: "string set" where
  "objectPrototypeMembers =
     {''constructor'', ''__proto__'', ''hasOwnProperty'', ''isPrototypeOf'',
      ''propertyIsEnumerable'', ''toLocaleString'', ''toString'', ''valueOf'',
      ''__defineGetter__'', ''__defineSetter__'', ''__lookupGetter__'', ''__lookupSetter__''}"

definition getMember :: "(string \<rightharpoonup> version_info) \<Rightarrow> string \<Rightarrow> version_info option" where
  "getMember vs name =
     (case vs name of
        Some versionInfo \<Rightarrow> Some versionInfo
      | None \<Rightarrow>
          if name \<in> objectPrototypeMembers
          then Some \<lparr>dependencies = [], peerDependencies = [], optionalDependencies = []\<rparr>
          else None)"

text \<open>
  A callback after its fetch: the dependencies of the latest version, or \<open>None\<close>
  when the callback returns early or the fetch threw (the \<open>catch\<close> only warns).
\<close>

definition nestedDependencies :: "world \<Rightarrow> string \<Rightarrow> (string \<times> string) list option" where
  "nestedDependencies w depName =
     (case awaitFetch w (urlOf w depName) of
        Inl err \<Rightarrow> None
      | Inr None \<Rightarrow> None
      | Inr (Some depData) \<Rightarrow>
          (case (dist_tags depData, versions depData) of
             (Some tags, Some vs) \<Rightarrow>
               (case tags ''latest'' of
                  None \<Rightarrow> None
                | Some latestVersion \<Rightarrow>
                    if latestVersion = [] then None
                    else (case getMember vs latestVersion of
                            None \<Rightarrow> None
                          | Some depVersionInfo \<Rightarrow> Some (spread [] (dependencies depVersionInfo))))
           | _ \<Rightarrow> None))"

text \<open>
  \<open>traverseDependencies\<close>. The batches of a level run one after the other. The
  callbacks of a batch run concurrently: each runs at once up to its fetch, and here
  the fetches then complete in the order in which they were issued, each callback
  finishing (its nested traversal included) before the next one goes on.
\<close>

function traverseDependencies ::
  "world \<Rightarrow> (string \<times> string) list \<Rightarrow> string set \<Rightarrow> traversal \<Rightarrow> nat \<Rightarrow> nat \<Rightarrow> traversal" where
  "traverseDependencies w deps insecure t currentDepth maxDepth =
     (if currentDepth \<ge> maxDepth then t
      else fold (\<lambda>batch t0.
             fold (\<lambda>entry t2.
                    case nestedDependencies w (fst entry) of
                      None \<Rightarrow> t2
                    | Some nestedDeps \<Rightarrow>
                        if nestedDeps \<noteq> [] then
                          traverseDependencies w nestedDeps insecure t2 (currentDepth + 1) maxDepth
                        else t2)
               (fst (fold (startCallback insecure currentDepth) batch ([], t0)))
               (snd (fold (startCallback insecure currentDepth) batch ([], t0))))
             (batches batchSize deps) t)"
  by pat_completeness auto
termination
  by (relation "measure (\<lambda>(w, deps, insecure, t, currentDepth, maxDepth). maxDepth - currentDepth)")
     auto

declare traverseDependencies.simps [simp del]

text \<open>The two stages of a batch, named for the proofs: what a callback does after its
  fetch, and a whole batch. \<open>traverseDependencies\<close> is the fold of \<open>processBatch\<close>
  over the batches (lemma \<open>traverseDependencies_unfold\<close>).\<close>

definition finishCallback ::
  "world \<Rightarrow> string set \<Rightarrow> nat \<Rightarrow> nat \<Rightarrow> string \<times> string \<Rightarrow> traversal \<Rightarrow> traversal" where
  "finishCallback w insecure currentDepth maxDepth entry t =
     (case nestedDependencies w (fst entry) of
        None \<Rightarrow> t
      | Some nestedDeps \<Rightarrow>
          if nestedDeps \<noteq> [] then
            traverseDependencies w nestedDeps insecure t (currentDepth + 1) maxDepth
          else t)"

definition processBatch ::
  "world \<Rightarrow> string set \<Rightarrow> nat \<Rightarrow> nat \<Rightarrow> (string \<times> string) list \<Rightarrow> traversal \<Rightarrow> traversal" where
  "processBatch w insecure currentDepth maxDepth batch t =
     fold (finishCallback w insecure currentDepth maxDepth)
       (fst (fold (startCallback insecure currentDepth) batch ([], t)))
       (snd (fold (startCallback insecure currentDepth) batch ([], t)))"



text \<open>\<open>!pkgData || !pkgData.versions || !pkgData.versions[version]\<close>: the manifest of
  the version, or \<open>None\<close> when the test holds.\<close>

definition manifest :: "pkg_data option \<Rightarrow> string \<Rightarrow> version_info option" where
  "manifest pkgData version =
     (case pkgData of
        None \<Rightarrow> None
      | Some d \<Rightarrow> (case versions d of None \<Rightarrow> None | Some vs \<Rightarrow> getMember vs version))"

text \<open>\<open>allDeps\<close>: the three sections of the manifest spread into one object.\<close>

definition mergedDependencies :: "version_info \<Rightarrow> (string \<times> string) list" where
  "mergedDependencies versionInfo =
     spread (spread (spread [] (dependencies versionInfo)) (peerDependencies versionInfo))
       (optionalDependencies versionInfo)"

text \<open>
  The \<open>try\<close> block of \<open>analyzePackageDependencies\<close>. It gives the message of the
  error thrown in it, if any, the \<open>result\<close> object as it then is, and the new state.
\<close>

definition tryBlock ::
  "world \<Rightarrow> string \<Rightarrow> string \<Rightarrow> string \<Rightarrow> analysis_result \<Rightarrow> scanner_state
     \<Rightarrow> (string option \<times> analysis_result) \<times> scanner_state" where
  "tryBlock w packageName version cacheKey r s =
     (case loadInsecurePackages w of
        Inl e \<Rightarrow> ((Some e, r), s)
      | Inr insecure \<Rightarrow>
          if packageName \<in> insecure then
            (let r1 = r\<lparr>isInsecure := True,
                         insecurePackages := insecurePackages r @ [packageName]\<rparr>
             in ((None, r1), s\<lparr>analysisCache := (analysisCache s)(cacheKey \<mapsto> r1)\<rparr>))
          else
            (let pkgUrl = urlOf w packageName;
                 s1 = s\<lparr>fetchLog := fetchLog s @ [(cacheKey, 0)]\<rparr>
             in case awaitFetch w pkgUrl of
                  Inl e \<Rightarrow> ((Some e, r), s1)
                | Inr pkgData \<Rightarrow>
                    (case manifest pkgData version of
                       None \<Rightarrow>
                         (let r1 = r\<lparr>error := Some ''Package version not found''\<rparr>
                          in ((None, r1),
                              s1\<lparr>analysisCache := (analysisCache s1)(cacheKey \<mapsto> r1)\<rparr>))
                     | Some versionInfo \<Rightarrow>
                         (let allDeps = mergedDependencies versionInfo;
                              r1 = fold (checkName insecure) (map fst allDeps) r;
                              maxDepth = 3;
                              t = traverseDependencies w allDeps insecure
                                    \<lparr>result = r1, visited = {cacheKey},
                                     requests = [(cacheKey, 0)]\<rparr> 0 maxDepth;
                              r2 = result t
                          in ((None, r2),
                              s\<lparr>fetchLog := fetchLog s @ requests t,
                                analysisCache := (analysisCache s)(cacheKey \<mapsto> r2)\<rparr>)))))"

text \<open>
  \<open>analyzePackageDependencies\<close> of the metadata-graph scanner: the cache, then the
  \<open>try\<close> block, whose error the \<open>catch\<close> block writes into the result. \<open>Inl\<close>
  would be an error thrown to the caller.
\<close>

definition analyzePackageDependencies ::
  "world \<Rightarrow> string \<Rightarrow> string \<Rightarrow> scanner_state \<Rightarrow> (string + analysis_result) \<times> scanner_state" where
  "analyzePackageDependencies w packageName version s =
     (let cacheKey = keyOf packageName version
      in case analysisCache s cacheKey of
           Some cached \<Rightarrow> (Inr cached, s)
         | None \<Rightarrow>
             (let r = \<lparr>isInsecure = False, insecurePackages = [], analyzedAt = now w,
                        error = None\<rparr>
              in case tryBlock w packageName version cacheKey r s of
                   ((None, r1), s1) \<Rightarrow> (Inr r1, s1)
                 | ((Some msg, r1), s1) \<Rightarrow>
                     (let r2 = r1\<lparr>error := Some msg\<rparr>
                      in (Inr r2, s1\<lparr>analysisCache := (analysisCache s1)(cacheKey \<mapsto> r2)\<rparr>))))"

text \<open>The result object as a scan creates it, and the traversal that a scan runs from
  it once the manifest is there; both only name parts of \<open>tryBlock\<close> and
  \<open>analyzePackageDependencies\<close> for the proofs.\<close>

definition freshResult :: "nat \<Rightarrow> analysis_result" where
  "freshResult time = \<lparr>isInsecure = False, insecurePackages = [], analyzedAt = time, error = None\<rparr>"

definition traversed :: "world \<Rightarrow> string set \<Rightarrow> string \<Rightarrow> version_info \<Rightarrow> traversal" where
  "traversed w insecure cacheKey versionInfo =
     traverseDependencies w (mergedDependencies versionInfo) insecure
       \<lparr>result = fold (checkName insecure) (map fst (mergedDependencies versionInfo))
                   (freshResult (now w)),
        visited = {cacheKey}, requests = [(cacheKey, 0)]\<rparr> 0 3"


definition getAnalysisCacheSize :: "'a cache_state_scheme \<Rightarrow> nat" where
  "getAnalysisCacheSize s = card (dom (analysisCache s))"

section \<open>The sandbox-install scanner (the second \<open>dependency-analyzer.ts\<close>, src/unnamed/part_002)\<close>

text \<open>
  A node of the file system under the temporary directory: a file, a directory with
  its entries, or a directory that cannot be read.
\<close>

datatype fsnode = File | Dir "(string \<times> fsnode) list" | NoAccess

text \<open>
  What a sandbox scan reads from outside: \<open>fs.mkdtemp\<close> throws or gives the new
  directory, \<open>fs.writeFile\<close> may throw, \<open>yarn install\<close> fails with a message or leaves
  \<open>node_modules\<close> (or no such entry) in the directory, and \<open>fs.rm\<close> may fail.
\<close>

record install_world = environment +
  mkdtemp :: "string + string"
  writeFile :: "string option"
  yarnInstall :: "string + fsnode option"
  rmFails :: bool

text \<open>The cache, the temporary directories that exist, and a record of the
  installs run and of the calls of \<open>fs.rm\<close>.\<close>

record sandbox_state = cache_state +
  tempDirs :: "string set"
  installs :: "(string \<times> string) list"
  removals :: "string list"

text \<open>\<open>packages.add(name)\<close> on a \<open>Set\<close>, kept in insertion order.\<close>

definition add :: "string \<Rightarrow> string list \<Rightarrow> string list" where
  "add name packages = (if name \<in> set packages then packages else packages @ [name])"

definition startsWith :: "string \<Rightarrow> string \<Rightarrow> bool" where
  "startsWith name p \<longleftrightarrow> prefix p name"

text \<open>
  \<open>getInstalledPackages\<close> on the node at \<open>nodeModulesPath\<close>. \<open>readdir\<close> throws on a
  file and on an unreadable directory; the function catches that and returns what it
  has. \<open>scanEntries\<close> is its loop over the entries, \<open>scanScoped\<close> the loop over the
  entries of a scope directory, \<open>nestedIn\<close> the step into \<open>node_modules\<close> of a
  package directory when \<open>fs.access\<close> finds it.
\<close>

fun getInstalledPackages :: "fsnode \<Rightarrow> string list \<Rightarrow> string list"
  and scanEntries :: "(string \<times> fsnode) list \<Rightarrow> string list \<Rightarrow> string list"
  and scanScoped :: "string \<Rightarrow> (string \<times> fsnode) list \<Rightarrow> string list \<Rightarrow> string list"
  and nestedIn :: "(string \<times> fsnode) list \<Rightarrow> string list \<Rightarrow> string list" where
  "getInstalledPackages File packages = packages"
| "getInstalledPackages NoAccess packages = packages"
| "getInstalledPackages (Dir entries) packages = scanEntries entries packages"
| "scanEntries [] packages = packages"
| "scanEntries ((name, File) # rest) packages = scanEntries rest packages"
| "scanEntries ((name, NoAccess) # rest) packages =
     (if startsWith name ''@'' then packages
      else if name \<noteq> ''.bin'' \<and> name \<noteq> ''.yarn-integrity'' then
        scanEntries rest (add name packages)
      else scanEntries rest packages)"
| "scanEntries ((name, Dir children) # rest) packages =
     (if startsWith name ''@'' then scanEntries rest (scanScoped name children packages)
      else if name \<noteq> ''.bin'' \<and> name \<noteq> ''.yarn-integrity'' then
        scanEntries rest (nestedIn children (add name packages))
      else scanEntries rest packages)"
| "scanScoped scope [] packages = packages"
| "scanScoped scope ((name, File) # rest) packages = scanScoped scope rest packages"
| "scanScoped scope ((name, NoAccess) # rest) packages =
     scanScoped scope rest (add (scope @ ''/'' @ name) packages)"
| "scanScoped scope ((name, Dir children) # rest) packages =
     scanScoped scope rest (nestedIn children (add (scope @ ''/'' @ name) packages))"
| "nestedIn [] packages = packages"
| "nestedIn ((name, node) # rest) packages =
     (if name = ''node_modules'' then getInstalledPackages node packages
      else nestedIn rest packages)"

text \<open>
  The \<open>try\<close> block of the sandbox scanner. It gives the message of the error thrown
  in it, if any, the \<open>result\<close> object and the variable \<open>tempDir\<close> as they then are,
  and the new state.
\<close>

definition tryBlock_install ::
  "install_world \<Rightarrow> string \<Rightarrow> string \<Rightarrow> string \<Rightarrow> analysis_result \<Rightarrow> sandbox_state
     \<Rightarrow> (string option \<times> analysis_result \<times> string option) \<times> sandbox_state" where
  "tryBlock_install w packageName version cacheKey r s =
     (case loadInsecurePackages w of
        Inl e \<Rightarrow> ((Some e, r, None), s)
      | Inr insecure \<Rightarrow>
          if packageName \<in> insecure then
            (let r1 = r\<lparr>isInsecure := True,
                         insecurePackages := insecurePackages r @ [packageName]\<rparr>
             in ((None, r1, None), s\<lparr>analysisCache := (analysisCache s)(cacheKey \<mapsto> r1)\<rparr>))
          else
            (case mkdtemp w of
               Inl e \<Rightarrow> ((Some e, r, None), s)
             | Inr tempDir \<Rightarrow>
                 (let s1 = s\<lparr>tempDirs := insert tempDir (tempDirs s)\<rparr>
                  in case writeFile w of
                       Some e \<Rightarrow> ((Some e, r, Some tempDir), s1)
                     | None \<Rightarrow>
                         (let s2 = s1\<lparr>installs := installs s1 @ [(packageName, version)]\<rparr>
                          in case yarnInstall w of
                               Inl installError \<Rightarrow>
                                 (let r1 = r\<lparr>error := Some (''Installation failed: '' @ installError)\<rparr>
                                  in ((None, r1, Some tempDir),
                                      s2\<lparr>analysisCache := (analysisCache s2)(cacheKey \<mapsto> r1)\<rparr>))
                             | Inr None \<Rightarrow>
                                 ((None, r, Some tempDir),
                                  s2\<lparr>analysisCache := (analysisCache s2)(cacheKey \<mapsto> r)\<rparr>)
                             | Inr (Some nodeModules) \<Rightarrow>
                                 (let installedPackages = getInstalledPackages nodeModules [];
                                      r1 = fold (checkName insecure) installedPackages r
                                  in ((None, r1, Some tempDir),
                                      s2\<lparr>analysisCache := (analysisCache s2)(cacheKey \<mapsto> r1)\<rparr>))))))"

text \<open>The \<open>finally\<close> block: \<open>fs.rm\<close> of the temporary directory, if one was made; a
  failure is only logged.\<close>

definition finallyBlock :: "install_world \<Rightarrow> string option \<Rightarrow> sandbox_state \<Rightarrow> sandbox_state" where
  "finallyBlock w tempDir s =
     (case tempDir of
        None \<Rightarrow> s
      | Some dir \<Rightarrow>
          (let s1 = s\<lparr>removals := removals s @ [dir]\<rparr>
           in if rmFails w then s1 else s1\<lparr>tempDirs := tempDirs s1 - {dir}\<rparr>))"

text \<open>\<open>analyzePackageDependencies\<close> of the sandbox-install scanner.\<close>

definition analyzePackageDependencies_install ::
  "install_world \<Rightarrow> string \<Rightarrow> string \<Rightarrow> sandbox_state \<Rightarrow> (string + analysis_result) \<times> sandbox_state" where
  "analyzePackageDependencies_install w packageName version s =
     (let cacheKey = keyOf packageName version
      in case analysisCache s cacheKey of
           Some cached \<Rightarrow> (Inr cached, s)
         | None \<Rightarrow>
             (let r = \<lparr>isInsecure = False, insecurePackages = [], analyzedAt = now w,
                        error = None\<rparr>
              in case tryBlock_install w packageName version cacheKey r s of
                   ((None, r1, tempDir), s1) \<Rightarrow> (Inr r1, finallyBlock w tempDir s1)
                 | ((Some msg, r1, tempDir), s1) \<Rightarrow>
                     (let r2 = r1\<lparr>error := Some msg\<rparr>
                      in (Inr r2,
                          finallyBlock w tempDir
                            (s1\<lparr>analysisCache := (analysisCache s1)(cacheKey \<mapsto> r2)\<rparr>)))))"

section \<open>Notions used in the properties\<close>

text \<open>The flag and the list of a result agree.\<close>

definition consistent :: "analysis_result \<Rightarrow> bool" where
  "consistent r \<longleftrightarrow> (isInsecure r \<longleftrightarrow> insecurePackages r \<noteq> [])"

text \<open>Storing a result in the cache.\<close>

definition withCached :: "string \<Rightarrow> analysis_result \<Rightarrow> 'a cache_state_scheme \<Rightarrow> 'a cache_state_scheme" where
  "withCached cacheKey r s = s\<lparr>analysisCache := (analysisCache s)(cacheKey \<mapsto> r)\<rparr>"

text \<open>Once the directory is made, every path ends in the \<open>finally\<close> block with the
  directory in \<open>tempDir\<close>; the paths differ in the result and in whether yarn ran.\<close>

definition sandboxResult :: "install_world \<Rightarrow> string set \<Rightarrow> analysis_result" where
  "sandboxResult w insecure =
     (case writeFile w of
        Some e \<Rightarrow> (freshResult (now w))\<lparr>error := Some e\<rparr>
      | None \<Rightarrow>
          (case yarnInstall w of
             Inl installError \<Rightarrow>
               (freshResult (now w))\<lparr>error := Some (''Installation failed: '' @ installError)\<rparr>
           | Inr None \<Rightarrow> freshResult (now w)
           | Inr (Some nodeModules) \<Rightarrow>
               fold (checkName insecure) (getInstalledPackages nodeModules [])
                 (freshResult (now w))))"




text \<open>What starting the callback of an entry achieves, and every later step keeps.\<close>

definition started :: "string set \<Rightarrow> string \<Rightarrow> string \<Rightarrow> traversal \<Rightarrow> bool" where
  "started insecure n rng t \<longleftrightarrow>
     keyOf n rng \<in> visited t \<and>
     (n \<in> UNSAFE_DEPENDENCIES \<union> insecure \<longrightarrow> n \<in> set (insecurePackages (result t)))"

section \<open>Example inputs\<close>

text \<open>Sequences of attempts for \<open>fetchWithRetry\<close>.\<close>

definition always429 :: "nat \<Rightarrow> string attempt" where
  "always429 i = Resolves \<lparr>res_status = 429, retryAfterHeader = None,
                            json = Inl ''Unexpected end of JSON input''\<rparr>"

definition alwaysReset :: "nat \<Rightarrow> string attempt" where
  "alwaysReset i = Rejects ''read ECONNRESET''"

definition limitedThenOk :: "string \<Rightarrow> nat \<Rightarrow> string attempt" where
  "limitedThenOk header i =
     (if i = 0
      then Resolves \<lparr>res_status = 429, retryAfterHeader = Some header,
                      json = Inl ''Unexpected token''\<rparr>
      else Resolves \<lparr>res_status = 200, retryAfterHeader = None, json = Inr ''payload''\<rparr>)"

definition notFoundHtml :: "string response" where
  "notFoundHtml = \<lparr>res_status = 404, retryAfterHeader = None,
                    json = Inl ''Unexpected token < in JSON''\<rparr>"

definition notFoundThenOk :: "nat \<Rightarrow> string attempt" where
  "notFoundThenOk i =
     (if i = 0 then Resolves notFoundHtml
      else Resolves \<lparr>res_status = 200, retryAfterHeader = None, json = Inr ''payload''\<rparr>)"

definition unavailable :: "string response" where
  "unavailable = \<lparr>res_status = 503, retryAfterHeader = None, json = Inl ''Unexpected token''\<rparr>"

text \<open>
  A registry given by a table from URL to document: a URL of the table is answered
  with 200 and the document, any other with 404 and a JSON object without versions.
  Each document has the single version 1.0.0, tagged latest, with the given
  dependencies.
\<close>

definition document :: "(string \<times> string) list \<Rightarrow> pkg_data" where
  "document deps =
     \<lparr>dist_tags = Some [''latest'' \<mapsto> ''1.0.0''],
      versions = Some [''1.0.0'' \<mapsto> \<lparr>dependencies = deps, peerDependencies = [],
                                        optionalDependencies = []\<rparr>]\<rparr>"

definition served :: "(string \<times> pkg_data) list \<Rightarrow> string \<Rightarrow> nat \<Rightarrow> pkg_data option attempt" where
  "served table url i =
     (case map_of table url of
        None \<Rightarrow> Resolves \<lparr>res_status = 404, retryAfterHeader = None,
                           json = Inr (Some \<lparr>dist_tags = None, versions = None\<rparr>)\<rparr>
      | Some d \<Rightarrow> Resolves \<lparr>res_status = 200, retryAfterHeader = None, json = Inr (Some d)\<rparr>)"

definition registryWorld :: "(string \<times> (string \<times> string) list) list \<Rightarrow> string set \<Rightarrow> world" where
  "registryWorld packages insecure =
     \<lparr>loadInsecurePackages = Inr insecure, now = 0, NPM_REGISTRY = ''https://r.test'',
      MAX_RETRIES = 3,
      network = served (map (\<lambda>(name, deps). (''https://r.test/'' @ name, document deps)) packages)\<rparr>"





definition leftpadWorld :: world where
  "leftpadWorld = registryWorld [(''leftpad-like'', [])] {}"

definition emptyState :: scanner_state where
  "emptyState = \<lparr>analysisCache = Map.empty, fetchLog = []\<rparr>"




text \<open>
  The sandbox: a directory tree as \<open>yarn install\<close> may leave it, with a nested
  \<open>node_modules\<close>, a scope, and directories that cannot be read.
\<close>

definition installedTree :: fsnode where
  "installedTree =
     Dir [(''.bin'', Dir [(''x'', File)]),
          (''.yarn-integrity'', File),
          (''koishi-plugin-x'', Dir [(''package.json'', File),
                                     (''node_modules'', Dir [(''sharp'', Dir [])])]),
          (''@scope'', Dir [(''pkg'', Dir [(''node_modules'', Dir [(''canvas'', Dir [])])]),
                            (''README.md'', File)]),
          (''puppeteer'', NoAccess),
          (''@locked'', NoAccess),
          (''never-listed'', Dir [])]"

definition installWorld :: "string + fsnode option \<Rightarrow> bool \<Rightarrow> install_world" where
  "installWorld outcome failing =
     \<lparr>loadInsecurePackages = Inr {}, now = 0, mkdtemp = Inr ''/tmp/koishi-security-Ab12Cd'',
      writeFile = None, yarnInstall = outcome, rmFails = failing\<rparr>"

definition emptySandbox :: sandbox_state where
  "emptySandbox = \<lparr>analysisCache = Map.empty, tempDirs = {}, installs = [], removals = []\<rparr>"

section \<open>Properties of the retrying fetch client\<close>

lemma step_ok_json:
  assumes "i < retries" and "attempts i = Resolves res" and "ok res" and "json res = Inr j"
  shows "fetchLoop attempts url retries True isN i waits = (Inr (Json j), waits)"
  apply (subst fetchLoop.simps)
  using assms
  apply (auto simp: tryAttempt_def fetchOperation_def npmjsLimiter_def ok_def)
  done


lemma step_404_response:
  assumes "i < retries" and "attempts i = Resolves res" and "res_status res = 404"
  shows "fetchLoop attempts url retries False isN i waits = (Inr (Resp res), waits)"
  apply (subst fetchLoop.simps)
  using assms
  apply (auto simp: tryAttempt_def fetchOperation_def npmjsLimiter_def)
  done

lemma step_404_json:
  assumes "i < retries" and "attempts i = Resolves res" and "res_status res = 404"
    and "json res = Inr j"
  shows "fetchLoop attempts url retries True isN i waits = (Inr (Json j), waits)"
  apply (subst fetchLoop.simps)
  using assms
  apply (auto simp: tryAttempt_def fetchOperation_def npmjsLimiter_def)
  done

lemma sublist_across:
  assumes "sublist xs (ys @ c # zs)" and "c \<notin> set xs"
  shows "sublist xs ys \<or> sublist xs zs"
proof -
  from assms(1) consider "sublist xs ys" | "sublist xs (c # zs)"
    | xs1 xs2 where "xs = xs1 @ xs2" "suffix xs1 ys" "prefix xs2 (c # zs)"
    by (auto simp: sublist_append)
  then show ?thesis
  proof cases
    case 1
    then show ?thesis by simp
  next
    case 2
    then have "prefix xs (c # zs) \<or> sublist xs zs"
      by (simp add: sublist_Cons_right)
    moreover have "prefix xs (c # zs) \<Longrightarrow> xs = []"
      using assms(2) by (cases xs) auto
    ultimately show ?thesis by auto
  next
    case 3
    have "xs2 = []"
      using 3(1,3) assms(2) by (cases xs2) auto
    with 3 show ?thesis by (auto simp: suffix_imp_sublist)
  qed
qed

lemma showNat_digits: "c \<in> set (showNat n) \<Longrightarrow> isDigit c"
proof (induction n rule: showNat.induct)
  case (1 n)
  show ?case
  proof (cases "n < 10")
    case True
    with 1(2) show ?thesis
      by (subst (asm) showNat.simps) (auto simp: isDigit_def)
  next
    case False
    with 1 show ?thesis
      by (subst (asm) (2) showNat.simps) (auto simp: isDigit_def)
  qed
qed

lemma http_error_message_no_reset:
  assumes "\<not> sublist ''ECONNRESET'' url"
  shows "\<not> sublist ''ECONNRESET'' (''HTTP error! status: '' @ showNat n @ '' for '' @ url)"
proof
  define needle where "needle = ''ECONNRESET''"
  define pre where "pre = ''HTTP error! status: '' @ showNat n @ '' for''"
  assume "sublist ''ECONNRESET'' (''HTTP error! status: '' @ showNat n @ '' for '' @ url)"
  then have "sublist needle (pre @ CHR '' '' # url)"
    by (simp add: needle_def pre_def)
  moreover have "CHR '' '' \<notin> set needle"
    by (simp add: needle_def)
  ultimately have "sublist needle pre \<or> sublist needle url"
    by (rule sublist_across)
  with assms have "sublist needle pre"
    by (simp add: needle_def)
  then have "set needle \<subseteq> set pre"
    by (rule set_mono_sublist)
  then have "CHR ''E'' \<in> set pre"
    by (auto simp: needle_def)
  then have "CHR ''E'' \<in> set (showNat n)"
    by (simp add: pre_def)
  then have "isDigit (CHR ''E'')"
    by (rule showNat_digits)
  then show False
    by (simp add: isDigit_def)
qed

lemma step_http_error:
  assumes "i < retries" and "attempts i = Resolves res" and "\<not> ok res"
    and "res_status res \<noteq> 404" and "res_status res \<noteq> 429"
    and "\<not> sublist ''ECONNRESET'' url"
  shows "fetchLoop attempts url retries returnJson isN i waits =
           (if Suc i = retries then
              (Inl \<lparr>message = ''HTTP error! status: '' @ showNat (res_status res) @ '' for '' @ url,
                    cause = None\<rparr>, waits)
            else fetchLoop attempts url retries returnJson isN (Suc i) (waits @ [1000]))"
proof -
  define e where "e = \<lparr>message = ''HTTP error! status: '' @ showNat (res_status res) @ '' for '' @ url,
                          cause = None\<rparr>"
  have t: "tryAttempt (attempts i) url returnJson isN = Inl e"
    using assms by (simp add: tryAttempt_def fetchOperation_def npmjsLimiter_def e_def)
  have "\<not> sublist ''ECONNRESET'' (message e)"
    unfolding e_def using http_error_message_no_reset [OF assms(6)] by simp
  moreover have "cause e = None"
    by (simp add: e_def)
  ultimately have c: "catchBlock e i retries = (if Suc i = retries then Throw else Wait 1000)"
    using assms(1) by (auto simp: catchBlock_def Let_def)
  have "fetchLoop attempts url retries returnJson isN i waits =
          (if Suc i = retries then (Inl e, waits)
           else fetchLoop attempts url retries returnJson isN (Suc i) (waits @ [1000]))"
    by (subst fetchLoop.simps) (simp add: assms(1) t c)
  then show ?thesis
    by (simp only: e_def)
qed


text \<open>
  Claim C1 says that a call whose attempts all fail raises the error after the last
  attempt. The \<open>catch\<close> block tests \<open>isLastAttempt\<close> only in its last branch: after a
  429 response or a connection reset on the last attempt it waits once more, the
  loop ends and the function returns nothing. With three attempts that all get a 429,
  or that all fail with \<open>ECONNRESET\<close>, the call returns \<open>undefined\<close> after waits of
  1, 2 and 4 seconds.
\<close>

theorem fetchWithRetry_exhausted_returns_undefined:
  "fetchWithRetry always429 ''https://registry.npmjs.org/koishi'' 3 True False
     = (Inr Undefined, [1000, 2000, 4000]) \<and>
   fetchWithRetry alwaysReset ''https://registry.npmjs.org/koishi'' 3 True False
     = (Inr Undefined, [1000, 2000, 4000])"
  by code_simp

text \<open>
  Claim C7 says that after a 429 the wait is the \<open>Retry-After\<close> delay when the server
  supplies one and \<open>2 ^ i * 1000\<close> ms otherwise; the comment in the \<open>catch\<close> block
  states the same rule. For \<open>Retry-After: 2\<close> the code does so: it waits 2000 ms, and
  the 200 response that follows yields the parsed payload. For \<open>Retry-After: 0\<close> it
  does not: the delay of 0 ms is falsy, \<open>retryAfter || 2 ** i * 1000\<close> takes
  it for a missing header, and the wait is the backoff of 1000 ms.
\<close>

theorem retry_after_zero_backs_off:
  "fetchWithRetry (limitedThenOk ''2'') ''https://registry.npmjs.org/koishi'' 3 True False
     = (Inr (Json ''payload''), [2000]) \<and>
   fetchWithRetry (limitedThenOk ''0'') ''https://registry.npmjs.org/koishi'' 3 True False
     = (Inr (Json ''payload''), [1000])"
  by code_simp

text \<open>
  Claim C8, as amended. A 404 response never becomes the HTTP-status error. When
  \<open>returnJson\<close> is false the response is returned by the attempt that got it, with no
  wait; when \<open>returnJson\<close> is true and the body of the 404 is JSON, the parsed body is
  returned by that attempt. Any other status outside 2xx, 429 apart, for a URL that
  does not contain \<open>ECONNRESET\<close>, is thrown on the last attempt and is otherwise
  followed by a wait of 1000 ms and the next attempt.
\<close>

theorem not_found_and_http_errors:
  assumes "i < retries" and "attempts i = Resolves res"
  shows "(res_status res = 404 \<longrightarrow>
            fetchLoop attempts url retries False isN i waits = (Inr (Resp res), waits)) \<and>
         (\<forall>j. res_status res = 404 \<longrightarrow> json res = Inr j \<longrightarrow>
            fetchLoop attempts url retries True isN i waits = (Inr (Json j), waits)) \<and>
         (\<not> ok res \<longrightarrow> res_status res \<noteq> 404 \<longrightarrow> res_status res \<noteq> 429 \<longrightarrow>
            \<not> sublist ''ECONNRESET'' url \<longrightarrow>
            fetchLoop attempts url retries returnJson isN i waits =
              (if Suc i = retries then
                 (Inl \<lparr>message = ''HTTP error! status: '' @ showNat (res_status res) @
                                  '' for '' @ url,
                       cause = None\<rparr>, waits)
               else fetchLoop attempts url retries returnJson isN (Suc i) (waits @ [1000])))"
  using step_404_response [where attempts = attempts and i = i, OF assms]
    step_404_json [where attempts = attempts and i = i, OF assms]
    step_http_error [where attempts = attempts and i = i, OF assms]
  by blast

text \<open>A 404 on a \<open>HEAD\<close> request returned at once, and a 503 thrown on the last of
  three attempts.\<close>

theorem not_found_and_http_errors_witness:
  "fetchLoop (\<lambda>i. Resolves notFoundHtml) ''https://registry.npmjs.org/koishi'' 5 False True 0 []
   = (Inr (Resp notFoundHtml), []) \<and>
   fetchLoop (\<lambda>i. Resolves unavailable) ''u'' 3 True False 2 [1000, 1000]
   = (Inl \<lparr>message = ''HTTP error! status: 503 for u'', cause = None\<rparr>, [1000, 1000])"
proof -
  have s: "showNat 503 = ''503''" and n: "\<not> sublist ''ECONNRESET'' ''u''"
    by code_simp+
  have "(0::nat) < 5" and "(\<lambda>i::nat. Resolves notFoundHtml) 0 = Resolves notFoundHtml"
    by simp_all
  note a = not_found_and_http_errors [where attempts = "\<lambda>i::nat. Resolves notFoundHtml" and i = 0
      and url = "''https://registry.npmjs.org/koishi''" and isN = True and waits = "[]", OF this]
  have "(2::nat) < 3" and "(\<lambda>i::nat. Resolves unavailable) 2 = Resolves unavailable"
    by simp_all
  note b = not_found_and_http_errors [where attempts = "\<lambda>i::nat. Resolves unavailable" and i = 2
      and url = "''u''" and returnJson = True and isN = False and waits = "[1000, 1000]", OF this]
  show ?thesis
    using a b n by (simp add: ok_def s notFoundHtml_def unavailable_def)
qed

text \<open>
  Claim C8 as stated fails with the default \<open>returnJson = true\<close> when the body of the
  404 is not JSON: \<open>response.json()\<close> throws inside the \<open>try\<close>, the attempt counts as
  failed, and the call waits 1000 ms and tries again.
\<close>

theorem not_found_unparsable_counterexample:
  "fetchWithRetry notFoundThenOk ''https://registry.npmjs.org/koishi'' 3 True False
   = (Inr (Json ''payload''), [1000]) \<and>
   snd (fetchWithRetry notFoundThenOk ''https://registry.npmjs.org/koishi'' 3 True False) \<noteq> []"
  by code_simp

section \<open>Properties of the traversal\<close>

lemma traverseDependencies_unfold:
  "traverseDependencies w deps insecure t currentDepth maxDepth =
     (if currentDepth \<ge> maxDepth then t
      else fold (processBatch w insecure currentDepth maxDepth) (batches batchSize deps) t)"
proof -
  have "processBatch w insecure currentDepth maxDepth =
        (\<lambda>batch t0.
             fold (\<lambda>entry t2.
                    case nestedDependencies w (fst entry) of
                      None \<Rightarrow> t2
                    | Some nestedDeps \<Rightarrow>
                        if nestedDeps \<noteq> [] then
                          traverseDependencies w nestedDeps insecure t2 (currentDepth + 1) maxDepth
                        else t2)
               (fst (fold (startCallback insecure currentDepth) batch ([], t0)))
               (snd (fold (startCallback insecure currentDepth) batch ([], t0))))"
    by (intro ext) (simp add: processBatch_def finishCallback_def [abs_def])
  then show ?thesis
    by (subst traverseDependencies.simps) simp
qed

text \<open>An invariant of the shared state that every callback start keeps is kept by the
  whole traversal.\<close>

lemma fold_startCallback_invariant:
  assumes "\<And>entry pending t. P t \<Longrightarrow> P (snd (startCallback insecure d entry (pending, t)))"
    and "P (snd acc)"
  shows "P (snd (fold (startCallback insecure d) batch acc))"
  using assms(2)
proof (induction batch arbitrary: acc)
  case Nil
  then show ?case by simp
next
  case (Cons e batch)
  obtain pending t where acc: "acc = (pending, t)" by (cases acc)
  with Cons.prems have "P (snd (startCallback insecure d e acc))"
    using assms(1) by simp
  then show ?case
    using Cons.IH by simp
qed

lemma traverse_invariant_aux:
  "(\<forall>d entry pending t'. d < maxDepth \<longrightarrow> P t' \<longrightarrow>
       P (snd (startCallback insecure d entry (pending, t')))) \<Longrightarrow>
   P t \<Longrightarrow> P (traverseDependencies w deps insecure t currentDepth maxDepth)"
proof (induction w deps insecure t currentDepth maxDepth rule: traverseDependencies.induct)
  case (1 w deps insecure t currentDepth maxDepth)
  note step = "1.prems"(1)
  show ?case
  proof (cases "currentDepth \<ge> maxDepth")
    case True
    with "1.prems" show ?thesis
      by (subst traverseDependencies.simps) simp
  next
    case False
    have batch: "P (processBatch w insecure currentDepth maxDepth batch t0)"
      if b: "batch \<in> set (batches batchSize deps)" and p: "P t0" for batch t0
    proof -
      let ?started = "fold (startCallback insecure currentDepth) batch ([], t0)"
      have s: "P (snd ?started)"
        by (rule fold_startCallback_invariant) (use False p step in auto)
      have "P (fold (finishCallback w insecure currentDepth maxDepth) (fst ?started) (snd ?started))"
      proof (rule fold_invariant [where Q = "\<lambda>e. e \<in> set (fst ?started)"])
        show "P (snd ?started)" by (rule s)
      next
        fix e t2
        assume e: "e \<in> set (fst ?started)" and t2: "P t2"
        show "P (finishCallback w insecure currentDepth maxDepth e t2)"
          unfolding finishCallback_def
          using "1.IH" [OF False b e _ _ step t2] t2
          by (auto split: option.splits)
      qed simp
      then show ?thesis
        by (simp add: processBatch_def)
    qed
    have "P (fold (processBatch w insecure currentDepth maxDepth) (batches batchSize deps) t)"
      by (rule fold_invariant [where Q = "\<lambda>b. b \<in> set (batches batchSize deps)"])
         (use "1.prems" batch in auto)
    with False show ?thesis
      by (simp add: traverseDependencies_unfold)
  qed
qed

lemma traverse_invariant:
  assumes "\<And>d entry pending t'. d < maxDepth \<Longrightarrow> P t' \<Longrightarrow>
             P (snd (startCallback insecure d entry (pending, t')))"
    and "P t"
  shows "P (traverseDependencies w deps insecure t currentDepth maxDepth)"
  by (rule traverse_invariant_aux [where P = P]) (use assms in blast)+


lemma flag_simps [simp]:
  "isInsecure (flag n r)"
  "set (insecurePackages (flag n r)) = insert n (set (insecurePackages r))"
  "distinct (insecurePackages (flag n r)) = distinct (insecurePackages r)"
  "insecurePackages (flag n r) \<noteq> []"
  "error (flag n r) = error r"
  "analyzedAt (flag n r) = analyzedAt r"
  by (auto simp: flag_def)





lemma checkName_error [simp]: "error (checkName insecure n r) = error r"
  by (simp add: checkName_def Let_def)

lemma checkName_analyzedAt [simp]: "analyzedAt (checkName insecure n r) = analyzedAt r"
  by (simp add: checkName_def Let_def)





lemma fold_checkName_error [simp]: "error (fold (checkName insecure) names r) = error r"
  by (induction names arbitrary: r) simp_all

lemma startCallback_snd:
  "snd (startCallback insecure d (n, rng) (pending, t)) =
     (if keyOf n rng \<in> visited t
      then t\<lparr>result := checkName insecure n (result t)\<rparr>
      else t\<lparr>result := checkName insecure n (result t),
             visited := insert (keyOf n rng) (visited t),
             requests := requests t @ [(keyOf n rng, d + 1)]\<rparr>)"
  by (simp add: startCallback_def Let_def)





lemma traverse_error:
  "error (result (traverseDependencies w deps insecure t d maxDepth)) = error (result t)"
  by (rule traverse_invariant [where P = "\<lambda>t'. error (result t') = error (result t)"])
     (auto simp: startCallback_snd)

lemma traverse_keeps_visited:
  "k \<in> visited t \<Longrightarrow> k \<in> visited (traverseDependencies w deps insecure t d maxDepth)"
  by (rule traverse_invariant [where P = "\<lambda>t. k \<in> visited t"])
     (auto simp: startCallback_snd)





section \<open>The paths of a metadata-graph scan\<close>





lemma analyze_no_manifest:
  assumes "analysisCache s (keyOf p v) = None" and "loadInsecurePackages w = Inr insecure"
    and "p \<notin> insecure" and "awaitFetch w (urlOf w p) = Inr pkgData"
    and "manifest pkgData v = None"
  shows "analyzePackageDependencies w p v s =
           (Inr ((freshResult (now w))\<lparr>error := Some ''Package version not found''\<rparr>),
            s\<lparr>fetchLog := fetchLog s @ [(keyOf p v, 0)],
              analysisCache := (analysisCache s)(keyOf p v \<mapsto>
                 (freshResult (now w))\<lparr>error := Some ''Package version not found''\<rparr>)\<rparr>)"
  using assms by (simp add: analyzePackageDependencies_def tryBlock_def freshResult_def Let_def)







lemma traversed_error: "error (result (traversed w insecure key vi)) = None"
  unfolding traversed_def
  by (simp add: traverse_error freshResult_def)


section \<open>Properties of the metadata-graph scanner\<close>






text \<open>
  Claim C9, as amended. When the scan fetches the registry document of the package
  and the manifest of the requested version is not in it (the document is falsy, has
  no \<open>versions\<close>, or \<open>versions\<close> has no member of that name, own or inherited from
  \<open>Object.prototype\<close>), the result has the error \<open>Package version not found\<close>, and
  \<open>isInsecure\<close> is false.
\<close>

theorem version_not_found:
  assumes "analysisCache s (keyOf p v) = None" and "loadInsecurePackages w = Inr insecure"
    and "p \<notin> insecure" and "awaitFetch w (urlOf w p) = Inr pkgData"
    and "manifest pkgData v = None"
  shows "\<exists>r. fst (analyzePackageDependencies w p v s) = Inr r \<and>
           error r = Some ''Package version not found'' \<and> \<not> isInsecure r \<and>
           insecurePackages r = []"
  using assms by (simp add: analyze_no_manifest freshResult_def)

lemma awaitFetch_first_ok:
  assumes "0 < MAX_RETRIES w" and "network w url 0 = Resolves res" and "ok res"
    and "json res = Inr j"
  shows "awaitFetch w url = Inr j"
  using step_ok_json [where attempts = "network w url" and i = 0, OF assms]
  by (simp add: awaitFetch_def fetchWithRetry_def)

text \<open>Version 2.0.0 of a package that only has 1.0.0.\<close>

lemma inherited_member_found:
  "fst (analyzePackageDependencies leftpadWorld ''leftpad-like'' ''constructor'' emptyState)
     = Inr \<lparr>isInsecure = False, insecurePackages = [], analyzedAt = 0, error = None\<rparr>"
  by code_simp

theorem version_not_found_witness:
  "fst (analyzePackageDependencies leftpadWorld ''leftpad-like'' ''2.0.0'' emptyState)
     = Inr \<lparr>isInsecure = False, insecurePackages = [], analyzedAt = 0,
            error = Some ''Package version not found''\<rparr>"
proof -
  have miss: "analysisCache emptyState (keyOf ''leftpad-like'' ''2.0.0'') = None"
    by (simp add: emptyState_def)
  have load: "loadInsecurePackages leftpadWorld = Inr {}"
    by (simp add: leftpadWorld_def registryWorld_def)
  have fetch: "awaitFetch leftpadWorld (urlOf leftpadWorld ''leftpad-like'') = Inr (Some (document []))"
    by (rule awaitFetch_first_ok [where res = "\<lparr>res_status = 200, retryAfterHeader = None,
                                                json = Inr (Some (document []))\<rparr>"])
       (simp_all add: leftpadWorld_def registryWorld_def urlOf_def served_def ok_def)
  have none: "manifest (Some (document [])) ''2.0.0'' = None"
    by (simp add: manifest_def document_def getMember_def objectPrototypeMembers_def)
  from version_not_found [OF miss load _ fetch none]
  obtain r where "fst (analyzePackageDependencies leftpadWorld ''leftpad-like'' ''2.0.0'' emptyState) = Inr r"
    and "error r = Some ''Package version not found''" and "\<not> isInsecure r"
    by auto
  moreover have "fst (analyzePackageDependencies leftpadWorld ''leftpad-like'' ''2.0.0'' emptyState)
     = Inr \<lparr>isInsecure = False, insecurePackages = [], analyzedAt = 0,
            error = Some ''Package version not found''\<rparr>"
    by code_simp
  ultimately show ?thesis
    by simp
qed

text \<open>
  Claim C9 as stated names another message, \<open>version not found\<close>. (A version called
  \<open>constructor\<close> is not absent for the code: lemma \<open>inherited_member_found\<close>.)
\<close>

theorem version_not_found_message_counterexample:
  "fst (analyzePackageDependencies leftpadWorld ''leftpad-like'' ''2.0.0'' emptyState)
     = Inr \<lparr>isInsecure = False, insecurePackages = [], analyzedAt = 0,
            error = Some ''Package version not found''\<rparr> \<and>
   Some ''Package version not found'' \<noteq> Some ''version not found''"
  by code_simp

section \<open>The paths of a sandbox scan\<close>





lemma install_with_directory:
  assumes "analysisCache s (keyOf p v) = None" and "loadInsecurePackages w = Inr insecure"
    and "p \<notin> insecure" and "mkdtemp w = Inr dir"
  shows "analyzePackageDependencies_install w p v s =
           (Inr (sandboxResult w insecure),
            finallyBlock w (Some dir)
              (withCached (keyOf p v) (sandboxResult w insecure)
                 (s\<lparr>tempDirs := insert dir (tempDirs s),
                    installs := (if writeFile w = None then installs s @ [(p, v)]
                                 else installs s)\<rparr>)))"
  using assms
  by (simp add: analyzePackageDependencies_install_def tryBlock_install_def freshResult_def
        sandboxResult_def withCached_def Let_def split: option.splits sum.splits)


lemma consistent_error_update [simp]: "consistent (r\<lparr>error := e\<rparr>) = consistent r"
  by (simp add: consistent_def)



section \<open>The cache\<close>

lemma analysisCache_cached [simp]:
  "analysisCache (withCached k r s) = (analysisCache s)(k \<mapsto> r)"
  by (simp add: withCached_def)

lemma analysisCache_finallyBlock [simp]:
  "analysisCache (finallyBlock w tempDir s) = analysisCache s"
  by (simp add: finallyBlock_def Let_def split: option.splits)






section \<open>Consistency of the results\<close>







section \<open>Errors and temporary directories\<close>












text \<open>
  Claim C5. A sandbox scan that made its temporary directory calls \<open>fs.rm\<close> on it
  once before it returns, on every path: the manifest could not be written, the
  install failed, there is no \<open>node_modules\<close>, or the packages were enumerated (an
  error of the enumeration ends the enumeration, not the scan). When \<open>fs.rm\<close> succeeds
  the directory no longer exists. When it fails the scan returns all the same, with
  the result it would have returned otherwise.
\<close>

theorem temporary_directory_removed:
  assumes "analysisCache t (keyOf p v) = None" and "loadInsecurePackages i = Inr insecure"
    and "p \<notin> insecure" and "mkdtemp i = Inr dir"
  shows "(\<exists>r. fst (analyzePackageDependencies_install i p v t) = Inr r) \<and>
         removals (snd (analyzePackageDependencies_install i p v t)) = removals t @ [dir] \<and>
         (\<not> rmFails i \<longrightarrow> dir \<notin> tempDirs (snd (analyzePackageDependencies_install i p v t))) \<and>
         fst (analyzePackageDependencies_install (i\<lparr>rmFails := True\<rparr>) p v t)
           = fst (analyzePackageDependencies_install (i\<lparr>rmFails := False\<rparr>) p v t)"
proof -
  have "sandboxResult (i\<lparr>rmFails := True\<rparr>) insecure = sandboxResult (i\<lparr>rmFails := False\<rparr>) insecure"
    by (simp add: sandboxResult_def split: option.splits sum.splits)
  moreover have "fst (analyzePackageDependencies_install (i\<lparr>rmFails := b\<rparr>) p v t)
                   = Inr (sandboxResult (i\<lparr>rmFails := b\<rparr>) insecure)" for b
    using assms by (simp add: install_with_directory)
  ultimately show ?thesis
    using assms
    by (simp add: install_with_directory finallyBlock_def withCached_def Let_def)
qed

theorem temporary_directory_removed_witness:
  "removals (snd (analyzePackageDependencies_install (installWorld (Inr (Some installedTree)) False)
                    ''koishi-plugin-x'' ''1.0.0'' emptySandbox))
     = [''/tmp/koishi-security-Ab12Cd''] \<and>
   tempDirs (snd (analyzePackageDependencies_install (installWorld (Inr (Some installedTree)) False)
                    ''koishi-plugin-x'' ''1.0.0'' emptySandbox)) = {} \<and>
   fst (analyzePackageDependencies_install (installWorld (Inr (Some installedTree)) True)
          ''koishi-plugin-x'' ''1.0.0'' emptySandbox)
     = Inr \<lparr>isInsecure = True, insecurePackages = [''sharp'', ''canvas'', ''puppeteer''],
            analyzedAt = 0, error = None\<rparr>"
proof -
  let ?i = "installWorld (Inr (Some installedTree)) False"
  have h: "analysisCache emptySandbox (keyOf ''koishi-plugin-x'' ''1.0.0'') = None"
    "loadInsecurePackages ?i = Inr {}" "''koishi-plugin-x'' \<notin> ({} :: string set)"
    "mkdtemp ?i = Inr ''/tmp/koishi-security-Ab12Cd''"
    by (simp_all add: emptySandbox_def installWorld_def)
  have r: "removals emptySandbox = []" "\<not> rmFails ?i"
    by (simp_all add: emptySandbox_def installWorld_def)
  have e: "fst (analyzePackageDependencies_install (installWorld (Inr (Some installedTree)) True)
          ''koishi-plugin-x'' ''1.0.0'' emptySandbox)
     = Inr \<lparr>isInsecure = True, insecurePackages = [''sharp'', ''canvas'', ''puppeteer''],
            analyzedAt = 0, error = None\<rparr>"
    by code_simp
  have t: "tempDirs (snd (analyzePackageDependencies_install ?i ''koishi-plugin-x'' ''1.0.0'' emptySandbox)) = {}"
    by code_simp
  from temporary_directory_removed [OF h] r e t show ?thesis
    by simp
qed

end
